theory Spec2Isabelle
  imports Main "HOL-Library.AList"
begin

section \<open>WinPM: the package manager of winpm.py\<close>

text \<open>
  The class \<open>WinPM\<close> keeps all of its state in files below one base directory: the
  configuration (config.json), the registry of installed packages (packages.json), the
  cached repository manifests (repositories/NAME.json), the download cache (cache/), the
  install directories (packages/NAME) and the shims (shims/NAME.bat). The model passes
  that state explicitly. What the program prints is returned as a list of messages, one
  constructor for each print statement. The network, the zip library, the hash function
  and the clock are parameters.

  JSON objects are association lists, since Python dictionaries keep insertion order and
  the program iterates over them. Directories are finite maps from names to contents.
  Paths are written relative to the base directory.

  The types fix what the files hold: a state file that exists is well-formed JSON of the
  documented shape, a manifest has the key \<open>packages\<close> and a registry entry has all
  six keys. Every registration of one run reads the same clock value.

  A file name is split at the slashes and backslashes in it, and each part is looked up
  as it is written: a part is an ordinary name, with no meaning given to a dot, to two
  dots or to a drive letter. The shim directory holds files only, an archive holds files
  only, and a directory below \<open>packages\<close> exists when it is a key of \<open>install_dir\<close>.
  Of the failures of the host, the model has the ones that depend on the names and on the
  items that exist; a full disk or a missing permission is not in it.
\<close>

subsection \<open>Data\<close>

type_synonym bytes = string

text \<open>
  A package descriptor of a manifest. The program reads every key but \<open>url\<close> through
  \<open>dict.get\<close> with a default, so each key may be absent. The key \<open>repository\<close> is the
  one \<open>find_package\<close> adds.
\<close>

record package_info =
  pi_version :: "string option"
  pi_url :: "string option"
  pi_executable :: "string option"
  pi_dependencies :: "string list option"
  pi_description :: "string option"
  pi_repository :: "string option"

text \<open>The value of the key \<open>packages\<close> of a manifest file.\<close>

type_synonym manifest = "(string \<times> package_info) list"

text \<open>An entry of packages.json, as \<open>install_package\<close> writes it.\<close>

record installed_package =
  ip_version :: string
  ip_path :: string
  ip_executable :: string
  ip_repository :: string
  ip_install_date :: string
  ip_hash :: string

type_synonym registry = "(string \<times> installed_package) list"

record repo_config =
  rc_url :: string
  rc_priority :: int

record settings =
  auto_update_repos :: bool
  show_verbose_output :: bool
  default_repository :: string
  download_timeout :: int
  max_parallel_downloads :: int

record config =
  repositories :: "(string \<times> repo_config) list"
  cfg_settings :: settings

text \<open>An item of a directory: a regular file or a subdirectory.\<close>

datatype node = File bytes | Dir "(string \<times> node) list"

record state =
  config_file :: config
  packages_file :: "registry option"
  repos_dir :: "string \<rightharpoonup> manifest"
  cache_dir :: "string \<rightharpoonup> node"
  install_dir :: "string \<rightharpoonup> string set"
  shims :: "string \<rightharpoonup> string"

text \<open>
  \<open>install_dir\<close> maps the path of a package directory to the names of the files in it;
  \<open>shims\<close> maps a package name to the executable path its batch file forwards to.
\<close>

datatype download_result =
    Request_failed
  | Stream_failed bytes
  | Downloaded bytes

datatype extract_result =
    Extracted "string set"
  | Extract_failed "string set"

text \<open>
  \<open>http_get\<close> is \<open>requests.get\<close> followed by the chunked read: the request fails
  before anything is written, or the stream breaks after some bytes were written, or
  the whole body arrives. \<open>zip_extractall\<close> is \<open>ZipFile.extractall\<close>: the files
  written, and whether an exception ended it. \<open>creatable\<close> is the host's rule for the
  names it accepts for a file or a directory: creating one under another name raises an
  OSError.
\<close>

record world =
  http_get :: "string \<Rightarrow> download_result"
  zip_extractall :: "bytes \<Rightarrow> extract_result"
  sha256_hexdigest :: "bytes \<Rightarrow> string"
  datetime_now :: string
  creatable :: "string \<Rightarrow> bool"

datatype py_error = RecursionError | TypeError | KeyError | OSError

datatype msg =
    Msg_already_installed string
  | Msg_not_found_in_any_repository string
  | Msg_not_found string
  | Msg_dependency_not_found string
  | Msg_installing_dependency string
  | Msg_installing string string
  | Msg_download_failed
  | Msg_failed_to_extract
  | Msg_shim_created string
  | Msg_installed string string
  | Msg_not_installed string
  | Msg_uninstalled string
  | Msg_updating string
  | Msg_checking_for_updates
  | Msg_update_available string string string
  | Msg_cleaning_up_cache
  | Msg_cache_cleaned

text \<open>
  The outcome of a method: the value returned or the exception raised, the state left
  behind (an exception rolls nothing back) and the messages printed.
\<close>

type_synonym 'a outcome = "(py_error + 'a) \<times> state \<times> msg list"

subsection \<open>Registry and manifests\<close>

definition load_packages :: "state \<Rightarrow> registry" where
  "load_packages s = (case packages_file s of None \<Rightarrow> [] | Some packages \<Rightarrow> packages)"

definition save_packages :: "state \<Rightarrow> registry \<Rightarrow> state" where
  "save_packages s packages = s\<lparr>packages_file := Some packages\<rparr>"

definition load_repository :: "state \<Rightarrow> string \<Rightarrow> manifest option" where
  "load_repository s repo_name = repos_dir s repo_name"

text \<open>The loop of \<open>find_package\<close> over the repository names of the configuration.\<close>

fun find_package_loop :: "state \<Rightarrow> string \<Rightarrow> string list \<Rightarrow> package_info list \<Rightarrow> package_info list" where
  "find_package_loop s package_name [] packages = packages"
| "find_package_loop s package_name (repo_name # rest) packages =
     (case load_repository s repo_name of
        None \<Rightarrow> find_package_loop s package_name rest packages
      | Some repo_data \<Rightarrow>
          (case map_of repo_data package_name of
             None \<Rightarrow> find_package_loop s package_name rest packages
           | Some package_info \<Rightarrow>
               find_package_loop s package_name rest
                 (packages @ [package_info\<lparr>pi_repository := Some repo_name\<rparr>])))"

definition find_package :: "state \<Rightarrow> string \<Rightarrow> package_info list" where
  "find_package s package_name =
     find_package_loop s package_name (map fst (repositories (config_file s))) []"

text \<open>
  \<open>resolve_dependencies\<close>: the resolved dependencies in the order declared, and the
  warnings printed for the ones no repository provides.
\<close>

fun resolve_loop :: "state \<Rightarrow> string list \<Rightarrow> (string \<times> package_info) list \<times> msg list" where
  "resolve_loop s [] = ([], [])"
| "resolve_loop s (dep # rest) =
     (case resolve_loop s rest of (resolved, out) \<Rightarrow>
        (case find_package s dep of
           [] \<Rightarrow> (resolved, Msg_dependency_not_found dep # out)
         | info # _ \<Rightarrow> ((dep, info) # resolved, out)))"

definition resolve_dependencies :: "state \<Rightarrow> package_info \<Rightarrow> (string \<times> package_info) list \<times> msg list" where
  "resolve_dependencies s package_info =
     resolve_loop s (case pi_dependencies package_info of None \<Rightarrow> [] | Some deps \<Rightarrow> deps)"

subsection \<open>Installing\<close>

text \<open>A dictionary is false in a condition when it has no key.\<close>

definition is_empty_info :: "package_info \<Rightarrow> bool" where
  "is_empty_info i \<longleftrightarrow>
     pi_version i = None \<and> pi_url i = None \<and> pi_executable i = None \<and>
     pi_dependencies i = None \<and> pi_description i = None \<and> pi_repository i = None"

text \<open>
  The block "Find package" of \<open>install_package\<close>. A repository name that is given and
  not empty pins the repository; subscripting the \<open>None\<close> that \<open>load_repository\<close>
  returns for a missing manifest raises TypeError.
\<close>

definition select_package :: "state \<Rightarrow> string \<Rightarrow> string option \<Rightarrow> (py_error + package_info option) \<times> msg list" where
  "select_package s package_name repo_name =
     (let unpinned =
            (case find_package s package_name of
               [] \<Rightarrow> (Inr None, [Msg_not_found_in_any_repository package_name])
             | info # _ \<Rightarrow>
                 if is_empty_info info then (Inr None, [Msg_not_found package_name])
                 else (Inr (Some info), []));
          pinned = (\<lambda>r.
            case load_repository s r of
              None \<Rightarrow> (Inl TypeError, [])
            | Some repo_data \<Rightarrow>
                (case map_of repo_data package_name of
                   None \<Rightarrow> (Inr None, [Msg_not_found package_name])
                 | Some info \<Rightarrow>
                     if is_empty_info info then (Inr None, [Msg_not_found package_name])
                     else (Inr (Some info), [])))
      in case repo_name of
           None \<Rightarrow> unpinned
         | Some r \<Rightarrow> if r = [] then unpinned else pinned r)"

text \<open>Paths: the parts of a file name, and the parts joined again.\<close>

definition is_separator :: "char \<Rightarrow> bool" where
  "is_separator c \<longleftrightarrow> c = CHR ''/'' \<or> c = CHR 0x5C"

fun split_path :: "string \<Rightarrow> string list" where
  "split_path [] = [[]]"
| "split_path (c # cs) =
     (if is_separator c then [] # split_path cs
      else (case split_path cs of [] \<Rightarrow> [[c]] | p # ps \<Rightarrow> (c # p) # ps))"

fun join_parts :: "string list \<Rightarrow> string" where
  "join_parts [] = []"
| "join_parts [p] = p"
| "join_parts (p # q # ps) = p @ ''/'' @ join_parts (q # ps)"

text \<open>
  \<open>package_dir / executable\<close>: a right operand with a root or a drive replaces the
  left one, an empty one leaves it.
\<close>

definition anchored :: "string \<Rightarrow> bool" where
  "anchored path \<longleftrightarrow>
     (case path of
        [] \<Rightarrow> False
      | c # cs \<Rightarrow> is_separator c \<or> (case cs of [] \<Rightarrow> False | d # _ \<Rightarrow> d = CHR '':''))"

definition join_path :: "string \<Rightarrow> string \<Rightarrow> string" where
  "join_path dir path =
     (if path = [] then dir else if anchored path then path else dir @ ''/'' @ path)"

text \<open>
  Reading and writing a file below a directory, part by part. Writing creates or
  replaces the file; it fails when a part before the last is not a directory or when the
  last part is a directory.
\<close>

fun lookup_path :: "(string \<times> node) list \<Rightarrow> string list \<Rightarrow> node option" where
  "lookup_path entries [] = Some (Dir entries)"
| "lookup_path entries (p # ps) =
     (case map_of entries p of
        None \<Rightarrow> None
      | Some (File b) \<Rightarrow> if ps = [] then Some (File b) else None
      | Some (Dir sub) \<Rightarrow> lookup_path sub ps)"

fun write_path :: "(string \<times> node) list \<Rightarrow> string list \<Rightarrow> bytes \<Rightarrow> (string \<times> node) list option" where
  "write_path entries [] b = None"
| "write_path entries (p # ps) b =
     (case map_of entries p of
        Some (Dir sub) \<Rightarrow>
          (case write_path sub ps b of
             None \<Rightarrow> None
           | Some sub' \<Rightarrow> Some (AList.update p (Dir sub') entries))
      | _ \<Rightarrow> if ps = [] then Some (AList.update p (File b) entries) else None)"

definition cache_lookup :: "(string \<rightharpoonup> node) \<Rightarrow> string \<Rightarrow> node option" where
  "cache_lookup cache path =
     (case split_path path of
        [] \<Rightarrow> None
      | p # ps \<Rightarrow>
          (case cache p of
             None \<Rightarrow> None
           | Some (File b) \<Rightarrow> if ps = [] then Some (File b) else None
           | Some (Dir sub) \<Rightarrow> lookup_path sub ps))"

definition cache_write :: "(string \<rightharpoonup> node) \<Rightarrow> string \<Rightarrow> bytes \<Rightarrow> (string \<rightharpoonup> node) option" where
  "cache_write cache path b =
     (case split_path path of
        [] \<Rightarrow> None
      | p # ps \<Rightarrow>
          (case cache p of
             Some (Dir sub) \<Rightarrow>
               (case write_path sub ps b of
                  None \<Rightarrow> None
                | Some sub' \<Rightarrow> Some (cache(p \<mapsto> Dir sub')))
           | _ \<Rightarrow> if ps = [] then Some (cache(p \<mapsto> File b)) else None))"

text \<open>\<open>open(path, 'wb')\<close> below the cache directory, and what is written.\<close>

definition open_wb :: "world \<Rightarrow> state \<Rightarrow> string \<Rightarrow> bytes \<Rightarrow> (string \<rightharpoonup> node) option" where
  "open_wb w s path b =
     (if creatable w (last (split_path path)) then cache_write (cache_dir s) path b
      else None)"

definition package_dir :: "string \<Rightarrow> string" where
  "package_dir package_name = ''packages/'' @ package_name"

definition download_path_of :: "string \<Rightarrow> string \<Rightarrow> string" where
  "download_path_of package_name version = package_name @ ''_'' @ version @ ''.zip''"

text \<open>
  \<open>download_file\<close> returns False on a request exception. \<open>open(destination, 'wb')\<close>
  comes after the request: it raises an OSError, which is not caught, when the
  destination is a directory, lies in a directory that does not exist (a file name
  with a separator in it) or has a name the host does not accept. The progress lines are
  left out of the messages.
\<close>

definition download_file :: "world \<Rightarrow> state \<Rightarrow> string \<Rightarrow> string \<Rightarrow> bool outcome" where
  "download_file w s url destination =
     (case http_get w url of
        Request_failed \<Rightarrow> (Inr False, s, [Msg_download_failed])
      | Stream_failed b \<Rightarrow>
          (case open_wb w s destination b of
             None \<Rightarrow> (Inl OSError, s, [])
           | Some cache' \<Rightarrow> (Inr False, s\<lparr>cache_dir := cache'\<rparr>, [Msg_download_failed]))
      | Downloaded b \<Rightarrow>
          (case open_wb w s destination b of
             None \<Rightarrow> (Inl OSError, s, [])
           | Some cache' \<Rightarrow> (Inr True, s\<lparr>cache_dir := cache'\<rparr>, [])))"

text \<open>
  \<open>package_dir.mkdir(exist_ok=True)\<close>, without \<open>parents\<close>: nothing happens when
  the directory exists; otherwise it raises an OSError when the directory above does not
  exist, when a file of that name is in the directory above or when the host does not
  accept the name. The directory \<open>packages\<close> always exists.
\<close>

definition parent_of :: "string \<Rightarrow> string" where
  "parent_of path = join_parts (butlast (split_path path))"

definition mkdir :: "world \<Rightarrow> state \<Rightarrow> string \<Rightarrow> state option" where
  "mkdir w s path =
     (let made = s\<lparr>install_dir := (install_dir s)(path \<mapsto> {})\<rparr> in
      case install_dir s path of
        Some _ \<Rightarrow> Some s
      | None \<Rightarrow>
          if \<not> creatable w (last (split_path path)) then None
          else if parent_of path = ''packages'' then Some made
          else (case install_dir s (parent_of path) of
                  None \<Rightarrow> None
                | Some files \<Rightarrow> if last (split_path path) \<in> files then None else Some made))"

text \<open>
  The try block around \<open>extractall\<close>: True when the archive was extracted, False when
  any exception was caught. The files written before the exception stay.
\<close>

definition extract_package :: "world \<Rightarrow> state \<Rightarrow> string \<Rightarrow> string \<Rightarrow> bool \<times> state" where
  "extract_package w s download_path path =
     (let old = (case install_dir s path of None \<Rightarrow> {} | Some files \<Rightarrow> files);
          put = (\<lambda>files. s\<lparr>install_dir := (install_dir s)(path \<mapsto> old \<union> files)\<rparr>)
      in case cache_lookup (cache_dir s) download_path of
           Some (File b) \<Rightarrow>
             (case zip_extractall w b of
                Extracted files \<Rightarrow> (True, put files)
              | Extract_failed files \<Rightarrow> (False, put files))
         | _ \<Rightarrow> (False, s))"

definition calculate_hash :: "world \<Rightarrow> state \<Rightarrow> string \<Rightarrow> string option" where
  "calculate_hash w s file_path =
     (case cache_lookup (cache_dir s) file_path of
        Some (File b) \<Rightarrow> Some (sha256_hexdigest w b)
      | _ \<Rightarrow> None)"

definition executable_of :: "string \<Rightarrow> package_info \<Rightarrow> string" where
  "executable_of package_name package_info =
     (case pi_executable package_info of
        None \<Rightarrow> package_name @ ''.exe''
      | Some e \<Rightarrow> e)"

text \<open>
  \<open>create_shim\<close> writes the batch file NAME.bat into the shim directory. Opening it
  raises an OSError when the name has a separator in it, since the shim directory has no
  subdirectory, or when the host does not accept the name.
\<close>

definition create_shim :: "world \<Rightarrow> state \<Rightarrow> string \<Rightarrow> package_info \<Rightarrow> state option" where
  "create_shim w s package_name package_info =
     (if length (split_path (package_name @ ''.bat'')) \<noteq> 1 \<or>
         \<not> creatable w (package_name @ ''.bat'')
      then None
      else Some (s\<lparr>shims := (shims s)(package_name \<mapsto>
             join_path (package_dir package_name)
               (executable_of package_name package_info))\<rparr>))"

text \<open>\<open>version or package_info.get('version', '1.0.0')\<close>\<close>

definition version_of :: "string option \<Rightarrow> package_info \<Rightarrow> string" where
  "version_of version package_info =
     (let from_info = (case pi_version package_info of None \<Rightarrow> ''1.0.0'' | Some v \<Rightarrow> v)
      in case version of
           None \<Rightarrow> from_info
         | Some v \<Rightarrow> if v = [] then from_info else v)"

definition registry_entry :: "world \<Rightarrow> string \<Rightarrow> string \<Rightarrow> package_info \<Rightarrow> string \<Rightarrow> installed_package" where
  "registry_entry w package_name version package_info h =
     \<lparr>ip_version = version,
      ip_path = package_dir package_name,
      ip_executable = executable_of package_name package_info,
      ip_repository = (case pi_repository package_info of None \<Rightarrow> ''unknown'' | Some r \<Rightarrow> r),
      ip_install_date = datetime_now w,
      ip_hash = h\<rparr>"

text \<open>
  The part of \<open>install_package\<close> from "Download and install" to its end. \<open>packages\<close>
  is the dictionary that \<open>install_package\<close> loaded in its first line.
\<close>

definition download_and_install ::
  "world \<Rightarrow> state \<Rightarrow> string \<Rightarrow> string option \<Rightarrow> package_info \<Rightarrow> registry \<Rightarrow> bool outcome" where
  "download_and_install w s package_name version package_info packages =
     (let version = version_of version package_info in
      case pi_url package_info of
        None \<Rightarrow> (Inl KeyError, s, [])
      | Some download_url \<Rightarrow>
          (let download_path = download_path_of package_name version in
           case download_file w s download_url download_path of (r, s1, out1) \<Rightarrow>
             (case r of
                Inl e \<Rightarrow> (Inl e, s1, Msg_installing package_name version # out1)
              | Inr ok \<Rightarrow>
                  if \<not> ok then (Inr False, s1, Msg_installing package_name version # out1)
                  else
                    (case mkdir w s1 (package_dir package_name) of
                       None \<Rightarrow> (Inl OSError, s1, Msg_installing package_name version # out1)
                     | Some s1' \<Rightarrow>
                    (case extract_package w s1' download_path (package_dir package_name) of
                       (extracted, s2) \<Rightarrow>
                       if \<not> extracted
                       then (Inr False, s2,
                             Msg_installing package_name version # out1 @ [Msg_failed_to_extract])
                       else
                         (case calculate_hash w s2 download_path of
                            None \<Rightarrow> (Inl OSError, s2, Msg_installing package_name version # out1)
                          | Some h \<Rightarrow>
                              (case create_shim w
                                      (save_packages s2
                                         (AList.update package_name
                                            (registry_entry w package_name version package_info h)
                                            packages))
                                      package_name package_info of
                                 None \<Rightarrow>
                                   (Inl OSError,
                                    save_packages s2
                                      (AList.update package_name
                                         (registry_entry w package_name version package_info h)
                                         packages),
                                    Msg_installing package_name version # out1)
                               | Some s3 \<Rightarrow>
                                   (Inr True, s3,
                                    Msg_installing package_name version # out1 @
                                      [Msg_shim_created package_name,
                                       Msg_installed package_name version]))))))))"

text \<open>
  The loop over the resolved dependencies. \<open>inst\<close> is the recursive call
  \<open>self.install_package(dep['name'])\<close>; the value it returns is dropped, an exception
  it raises ends the loop and the caller.
\<close>

fun install_dependencies ::
  "(state \<Rightarrow> string \<Rightarrow> bool outcome) \<Rightarrow> state \<Rightarrow> (string \<times> package_info) list \<Rightarrow> unit outcome" where
  "install_dependencies inst s [] = (Inr (), s, [])"
| "install_dependencies inst s (dep # rest) =
     (case inst s (fst dep) of (r, s1, out1) \<Rightarrow>
        (case r of
           Inl e \<Rightarrow> (Inl e, s1, Msg_installing_dependency (fst dep) # out1)
         | Inr _ \<Rightarrow>
             (case install_dependencies inst s1 rest of (r2, s2, out2) \<Rightarrow>
                (r2, s2, Msg_installing_dependency (fst dep) # out1 @ out2))))"

text \<open>
  The part of \<open>install_package\<close> after the descriptor was found: resolve the
  dependencies, install them, then download and install the package itself.
\<close>

definition install_found ::
  "(state \<Rightarrow> string \<Rightarrow> bool outcome) \<Rightarrow> world \<Rightarrow> state \<Rightarrow> string \<Rightarrow> string option \<Rightarrow>
   package_info \<Rightarrow> registry \<Rightarrow> bool outcome" where
  "install_found inst w s package_name version package_info packages =
     (case resolve_dependencies s package_info of (dependencies, out0) \<Rightarrow>
        (case install_dependencies inst s dependencies of (r1, s1, out1) \<Rightarrow>
           (case r1 of
              Inl e \<Rightarrow> (Inl e, s1, out0 @ out1)
            | Inr _ \<Rightarrow>
                (case download_and_install w s1 package_name version package_info packages of
                   (r2, s2, out2) \<Rightarrow> (r2, s2, out0 @ out1 @ out2)))))"

text \<open>
  \<open>install_package\<close>. The first argument bounds the depth of the recursion, as the
  interpreter's recursion limit does: at depth 0 the call raises RecursionError.
\<close>

fun install_package ::
  "nat \<Rightarrow> world \<Rightarrow> state \<Rightarrow> string \<Rightarrow> string option \<Rightarrow> string option \<Rightarrow> bool outcome" where
  "install_package 0 w s package_name version repo_name = (Inl RecursionError, s, [])"
| "install_package (Suc depth) w s package_name version repo_name =
     (let packages = load_packages s in
      if map_of packages package_name \<noteq> None
      then (Inr False, s, [Msg_already_installed package_name])
      else
        (case select_package s package_name repo_name of (found, out) \<Rightarrow>
           (case found of
              Inl e \<Rightarrow> (Inl e, s, out)
            | Inr None \<Rightarrow> (Inr False, s, out)
            | Inr (Some package_info) \<Rightarrow>
                install_found (\<lambda>s' dep. install_package depth w s' dep None None)
                  w s package_name version package_info packages)))"

subsection \<open>Uninstalling, checking for updates, cleaning up\<close>

text \<open>
  \<open>shutil.rmtree\<close> removes a directory with the directories below it.
\<close>

definition below :: "string \<Rightarrow> string \<Rightarrow> bool" where
  "below dir path \<longleftrightarrow>
     length dir < length path \<and> take (length dir) path = dir \<and>
     is_separator (path ! length dir)"

definition rmtree :: "(string \<rightharpoonup> string set) \<Rightarrow> string \<Rightarrow> (string \<rightharpoonup> string set)" where
  "rmtree dirs dir = (\<lambda>path. if path = dir \<or> below dir path then None else dirs path)"

definition uninstall :: "state \<Rightarrow> string \<Rightarrow> bool outcome" where
  "uninstall s package_name =
     (let packages = load_packages s in
      case map_of packages package_name of
        None \<Rightarrow> (Inr False, s, [Msg_not_installed package_name])
      | Some entry \<Rightarrow>
          (let s1 = (case install_dir s (ip_path entry) of
                       None \<Rightarrow> s
                     | Some _ \<Rightarrow> s\<lparr>install_dir := rmtree (install_dir s) (ip_path entry)\<rparr>);
               s2 = (case shims s1 package_name of
                       None \<Rightarrow> s1
                     | Some _ \<Rightarrow> s1\<lparr>shims := (shims s1)(package_name := None)\<rparr>)
           in (Inr True, save_packages s2 (AList.delete package_name packages),
               [Msg_uninstalled package_name])))"

text \<open>
  The loop of \<open>update\<close> without a package name. \<open>available[0]['version']\<close> raises
  KeyError when the descriptor has no version.
\<close>

fun update_loop :: "state \<Rightarrow> registry \<Rightarrow> (py_error + unit) \<times> msg list" where
  "update_loop s [] = (Inr (), [])"
| "update_loop s (pkg # rest) =
     (case find_package s (fst pkg) of
        [] \<Rightarrow> update_loop s rest
      | a # _ \<Rightarrow>
          (case pi_version a of
             None \<Rightarrow> (Inl KeyError, [])
           | Some v \<Rightarrow>
               if v \<noteq> ip_version (snd pkg)
               then (case update_loop s rest of (r, out) \<Rightarrow>
                       (r, Msg_update_available (fst pkg) (ip_version (snd pkg)) v # out))
               else update_loop s rest))"

definition update :: "state \<Rightarrow> string option \<Rightarrow> unit outcome" where
  "update s package_name =
     (let check = (case update_loop s (load_packages s) of (r, out) \<Rightarrow>
                     (r, s, Msg_checking_for_updates # out))
      in case package_name of
           None \<Rightarrow> check
         | Some p \<Rightarrow> if p = [] then check else (Inr (), s, [Msg_updating p]))"

text \<open>
  \<open>cleanup\<close> unlinks the items of the cache directory for which \<open>is_file()\<close> holds
  and passes over the others.
\<close>

definition cleanup :: "state \<Rightarrow> unit outcome" where
  "cleanup s =
     (Inr (),
      s\<lparr>cache_dir := (\<lambda>item. case cache_dir s item of
                                 Some (File b) \<Rightarrow> None
                               | other \<Rightarrow> other)\<rparr>,
      [Msg_cleaning_up_cache, Msg_cache_cleaned])"

subsection \<open>Reading an outcome\<close>

definition result_of :: "'a outcome \<Rightarrow> py_error + 'a" where
  "result_of oc = fst oc"

definition state_of :: "'a outcome \<Rightarrow> state" where
  "state_of oc = fst (snd oc)"

definition output_of :: "'a outcome \<Rightarrow> msg list" where
  "output_of oc = snd (snd oc)"

definition is_installed :: "state \<Rightarrow> string \<Rightarrow> bool" where
  "is_installed s package_name \<longleftrightarrow> map_of (load_packages s) package_name \<noteq> None"


text \<open>The names a descriptor declares as dependencies.\<close>

definition dependencies_of :: "package_info \<Rightarrow> string list" where
  "dependencies_of package_info =
     (case pi_dependencies package_info of None \<Rightarrow> [] | Some deps \<Rightarrow> deps)"

text \<open>
  The update check as the specification words it: a registered package is reported when
  its best available descriptor carries a version string different from the installed
  one.
\<close>

definition best_version :: "state \<Rightarrow> string \<Rightarrow> string option" where
  "best_version s package_name =
     (case find_package s package_name of [] \<Rightarrow> None | a # _ \<Rightarrow> pi_version a)"

definition spec_check_updates :: "state \<Rightarrow> (string \<times> string \<times> string) list" where
  "spec_check_updates s =
     concat (map (\<lambda>pkg.
        case best_version s (fst pkg) of
          None \<Rightarrow> []
        | Some v \<Rightarrow> if v \<noteq> ip_version (snd pkg) then [(fst pkg, ip_version (snd pkg), v)] else [])
      (load_packages s))"

subsection \<open>Example worlds and states\<close>

definition good_world :: world where
  "good_world =
     \<lparr>http_get = (\<lambda>url. Downloaded (''zip of '' @ url)),
      zip_extractall = (\<lambda>b. Extracted {''tool.exe''}),
      sha256_hexdigest = (\<lambda>b. ''sha256 of '' @ b),
      datetime_now = ''2024-01-01T00:00:00'',
      creatable = (\<lambda>name. name \<noteq> [] \<and> name \<noteq> ''.'' \<and> name \<noteq> ''..'')\<rparr>"

text \<open>A world whose archives are corrupt: extraction writes one file and fails.\<close>

definition corrupt_zip_world :: world where
  "corrupt_zip_world = good_world\<lparr>zip_extractall := (\<lambda>b. Extract_failed {''partial.tmp''})\<rparr>"

definition default_settings :: settings where
  "default_settings =
     \<lparr>auto_update_repos = True, show_verbose_output = False,
      default_repository = ''main'', download_timeout = 30,
      max_parallel_downloads = 3\<rparr>"

text \<open>The configuration that \<open>ensure_directories\<close> writes on the first run.\<close>

definition default_config :: config where
  "default_config =
     \<lparr>repositories =
        [(''main'', \<lparr>rc_url = ''https://main/'', rc_priority = 1\<rparr>),
         (''extras'', \<lparr>rc_url = ''https://extras/'', rc_priority = 2\<rparr>)],
      cfg_settings = default_settings\<rparr>"

text \<open>A configuration that lists the repository of priority 2 before the one of priority 1.\<close>

definition extras_first_config :: config where
  "extras_first_config =
     \<lparr>repositories =
        [(''extras'', \<lparr>rc_url = ''https://extras/'', rc_priority = 2\<rparr>),
         (''main'', \<lparr>rc_url = ''https://main/'', rc_priority = 1\<rparr>)],
      cfg_settings = default_settings\<rparr>"

definition descriptor :: "string \<Rightarrow> string \<Rightarrow> string list \<Rightarrow> package_info" where
  "descriptor version url deps =
     \<lparr>pi_version = Some version, pi_url = Some url, pi_executable = None,
      pi_dependencies = Some deps, pi_description = None, pi_repository = None\<rparr>"

definition fresh_state :: "config \<Rightarrow> (string \<rightharpoonup> manifest) \<Rightarrow> state" where
  "fresh_state c manifests =
     \<lparr>config_file = c, packages_file = None, repos_dir = manifests,
      cache_dir = Map.empty, install_dir = Map.empty, shims = Map.empty\<rparr>"

text \<open>Package A depends on B; nothing is installed.\<close>

definition ab_state :: state where
  "ab_state = fresh_state default_config [''main'' \<mapsto>
      [(''A'', descriptor ''1.0'' ''https://main/A.zip'' [''B'']),
       (''B'', descriptor ''2.0'' ''https://main/B.zip'' [])]]"

text \<open>A depends on B and B depends on A; nothing is installed.\<close>

definition cyclic_state :: state where
  "cyclic_state = fresh_state default_config [''main'' \<mapsto>
      [(''A'', descriptor ''1.0'' ''https://main/A.zip'' [''B'']),
       (''B'', descriptor ''2.0'' ''https://main/B.zip'' [''A''])]]"

text \<open>Both repositories offer foo, in different versions.\<close>

definition two_repo_manifests :: "string \<rightharpoonup> manifest" where
  "two_repo_manifests =
     [''main'' \<mapsto> [(''foo'', descriptor ''1.0'' ''https://main/foo.zip'' [])],
      ''extras'' \<mapsto> [(''foo'', descriptor ''9.9'' ''https://extras/foo.zip'' [])]]"

definition extras_first_state :: state where
  "extras_first_state = fresh_state extras_first_config two_repo_manifests"

definition foo_entry :: installed_package where
  "foo_entry =
     \<lparr>ip_version = ''1.0'', ip_path = ''packages/foo'', ip_executable = ''foo.exe'',
      ip_repository = ''main'', ip_install_date = ''2024-01-01T00:00:00'',
      ip_hash = ''sha256 of zip of https://main/foo.zip''\<rparr>"

text \<open>foo is installed from main, where it is offered in version 1.0; extras offers 9.9.\<close>

definition foo_installed_state :: state where
  "foo_installed_state =
     \<lparr>config_file = default_config,
      packages_file = Some [(''foo'', foo_entry)],
      repos_dir = two_repo_manifests,
      cache_dir = [''foo_1.0.zip'' \<mapsto> File ''zip of https://main/foo.zip''],
      install_dir = [''packages/foo'' \<mapsto> {''tool.exe''}],
      shims = [''foo'' \<mapsto> ''packages/foo/foo.exe'']\<rparr>"

text \<open>The same, with a subdirectory in the download cache.\<close>

definition cluttered_state :: state where
  "cluttered_state =
     foo_installed_state\<lparr>cache_dir :=
       [''foo_1.0.zip'' \<mapsto> File ''zip of https://main/foo.zip'',
        ''old'' \<mapsto> Dir [(''bar_0.1.zip'', File ''zip of bar'')]]\<rparr>"

text \<open>The package app declares a dependency that no repository provides.\<close>

definition app_state :: state where
  "app_state = fresh_state default_config [''main'' \<mapsto>
      [(''app'', descriptor ''1.0'' ''https://main/app.zip'' [''missinglib''])]]"




text \<open>foo is installed in version 1.0 and the first repository offers 9.9.\<close>

definition foo_outdated_state :: state where
  "foo_outdated_state = foo_installed_state\<lparr>config_file := extras_first_config\<rparr>"

text \<open>A dependency name is resolvable when \<open>find_package\<close> returns a descriptor for it.\<close>

definition resolvable :: "state \<Rightarrow> string \<Rightarrow> bool" where
  "resolvable s dep \<longleftrightarrow> find_package s dep \<noteq> []"




text \<open>
  Extras offers A with a dependency on A itself, main offers A without dependencies; the
  archive of extras is corrupt, the one of main is not.
\<close>

definition self_pinned_state :: state where
  "self_pinned_state = fresh_state default_config
     [''main'' \<mapsto> [(''A'', descriptor ''1.0'' ''https://main/A.zip'' [])],
      ''extras'' \<mapsto> [(''A'', descriptor ''2.0'' ''https://extras/A.zip'' [''A''])]]"

definition extras_corrupt_world :: world where
  "extras_corrupt_world =
     good_world\<lparr>zip_extractall := (\<lambda>b.
       if b = ''zip of https://extras/A.zip'' then Extract_failed {''partial.tmp''}
       else Extracted {''tool.exe''})\<rparr>"

text \<open>
  The package bare has no version in its manifest. It was installed first, then foo in
  version 1.0; since then main offers foo in version 9.9.
\<close>

definition bare_descriptor :: package_info where
  "bare_descriptor =
     \<lparr>pi_version = None, pi_url = Some ''https://main/bare.zip'', pi_executable = None,
      pi_dependencies = None, pi_description = None, pi_repository = None\<rparr>"

definition bare_fresh_state :: state where
  "bare_fresh_state = fresh_state default_config [''main'' \<mapsto>
      [(''bare'', bare_descriptor),
       (''foo'', descriptor ''1.0'' ''https://main/foo.zip'' [])]]"

definition bare_installed_state :: state where
  "bare_installed_state =
     state_of (install_package (Suc 0) good_world
       (state_of (install_package (Suc 0) good_world bare_fresh_state ''bare'' None None))
       ''foo'' None None)"

definition versionless_state :: state where
  "versionless_state =
     bare_installed_state\<lparr>repos_dir := [''main'' \<mapsto>
       [(''bare'', bare_descriptor),
        (''foo'', descriptor ''9.9'' ''https://main/foo.zip'' [])]]\<rparr>"

section \<open>Properties\<close>

lemmas run_defs =
  load_packages_def save_packages_def find_package_def load_repository_def
  select_package_def is_empty_info_def resolve_dependencies_def install_found_def
  download_and_install_def download_file_def download_path_of_def version_of_def
  package_dir_def mkdir_def extract_package_def calculate_hash_def create_shim_def
  registry_entry_def executable_of_def Let_def result_of_def state_of_def output_of_def
  is_separator_def cache_lookup_def cache_write_def parent_of_def join_path_def anchored_def
  open_wb_def

lemmas example_defs =
  good_world_def corrupt_zip_world_def default_settings_def default_config_def
  extras_first_config_def descriptor_def fresh_state_def ab_state_def cyclic_state_def
  two_repo_manifests_def extras_first_state_def foo_entry_def foo_installed_state_def
  cluttered_state_def app_state_def self_pinned_state_def extras_corrupt_world_def
  bare_descriptor_def bare_fresh_state_def

subsection \<open>Installing what is installed\<close>

text \<open>
  C4. Calling \<open>install_package\<close> on a package that is in the registry returns False
  with the message that it is already installed, and the state after the call is the
  state before it: the registry, the configuration, the manifests, the cache, the install
  directories and the shims are all unchanged. This holds for every version and
  repository argument.
\<close>

theorem install_package_already_installed:
  "map_of (load_packages s) package_name = Some entry \<Longrightarrow>
   install_package (Suc depth) w s package_name version repo_name =
     (Inr False, s, [Msg_already_installed package_name])"
  by simp

theorem install_package_already_installed_witness:
  "map_of (load_packages foo_installed_state) ''foo'' = Some foo_entry \<and>
   install_package (Suc 0) good_world foo_installed_state ''foo'' None None =
     (Inr False, foo_installed_state, [Msg_already_installed ''foo''])"
proof -
  have h: "map_of (load_packages foo_installed_state) ''foo'' = Some foo_entry"
    by (simp add: load_packages_def foo_installed_state_def)
  show ?thesis
    using h install_package_already_installed [OF h, of 0 good_world None None] by simp
qed

subsection \<open>A pinned repository without a cached manifest\<close>

text \<open>
  The check of the registry comes before the lookup: for a package that is installed,
  a pin on a repository without a manifest raises nothing.
\<close>

theorem pinned_missing_manifest_counterexample:
  "load_repository foo_installed_state ''ghost'' = None \<and>
   install_package (Suc 0) good_world foo_installed_state ''foo'' None (Some ''ghost'') =
     (Inr False, foo_installed_state, [Msg_already_installed ''foo''])"
  by (simp add: load_repository_def load_packages_def foo_installed_state_def
      two_repo_manifests_def)

text \<open>
  C10, amended. When \<open>install_package\<close> is called for a package that is not installed,
  with a repository name that is not empty and has no cached manifest, it raises
  TypeError (the subscript of the None that \<open>load_repository\<close> returned) and leaves the
  state as it was, printing nothing.
\<close>

theorem pinned_missing_manifest_raises:
  assumes "\<not> is_installed s package_name"
      and "repo_name \<noteq> []"
      and "load_repository s repo_name = None"
  shows "install_package (Suc depth) w s package_name version (Some repo_name) =
           (Inl TypeError, s, [])"
  using assms by (simp add: is_installed_def select_package_def)

theorem pinned_missing_manifest_raises_witness:
  "\<not> is_installed ab_state ''A'' \<and> ''ghost'' \<noteq> [] \<and>
   load_repository ab_state ''ghost'' = None \<and>
   install_package (Suc 0) good_world ab_state ''A'' None (Some ''ghost'') =
     (Inl TypeError, ab_state, [])"
proof -
  have h1: "\<not> is_installed ab_state ''A''"
    by (simp add: is_installed_def load_packages_def ab_state_def fresh_state_def)
  have h2: "''ghost'' \<noteq> []" by simp
  have h3: "load_repository ab_state ''ghost'' = None"
    by (simp add: load_repository_def ab_state_def fresh_state_def)
  show ?thesis
    using h1 h3 pinned_missing_manifest_raises [OF h1 h2 h3, of 0 good_world None] by simp
qed

subsection \<open>Uninstalling\<close>

text \<open>
  C7. Uninstalling a package that is registered returns True and leaves a state in which
  the package is not installed, the directory at the path of its registry entry does not
  exist and its shim does not exist. Uninstalling a package that is not registered
  returns False with the message that it is not installed, and the state is unchanged.
\<close>

theorem uninstall_registered_or_not:
  "(map_of (load_packages s) package_name = Some entry \<longrightarrow>
      result_of (uninstall s package_name) = Inr True \<and>
      \<not> is_installed (state_of (uninstall s package_name)) package_name \<and>
      install_dir (state_of (uninstall s package_name)) (ip_path entry) = None \<and>
      shims (state_of (uninstall s package_name)) package_name = None) \<and>
   (map_of (load_packages s) package_name = None \<longrightarrow>
      uninstall s package_name = (Inr False, s, [Msg_not_installed package_name]))"
  by (simp add: uninstall_def Let_def result_of_def state_of_def is_installed_def
      load_packages_def save_packages_def rmtree_def AList.delete_conv' split: option.splits)

theorem uninstall_registered_or_not_witness:
  "map_of (load_packages foo_installed_state) ''foo'' = Some foo_entry \<and>
   result_of (uninstall foo_installed_state ''foo'') = Inr True \<and>
   \<not> is_installed (state_of (uninstall foo_installed_state ''foo'')) ''foo'' \<and>
   install_dir (state_of (uninstall foo_installed_state ''foo'')) ''packages/foo'' = None \<and>
   shims (state_of (uninstall foo_installed_state ''foo'')) ''foo'' = None \<and>
   map_of (load_packages foo_installed_state) ''bar'' = None \<and>
   uninstall foo_installed_state ''bar'' =
     (Inr False, foo_installed_state, [Msg_not_installed ''bar''])"
proof -
  have h1: "map_of (load_packages foo_installed_state) ''foo'' = Some foo_entry"
    by (simp add: load_packages_def foo_installed_state_def)
  have h2: "map_of (load_packages foo_installed_state) ''bar'' = None"
    by (simp add: load_packages_def foo_installed_state_def)
  have p: "ip_path foo_entry = ''packages/foo''" by (simp add: foo_entry_def)
  show ?thesis
    using h1 h2 p uninstall_registered_or_not [of foo_installed_state "''foo''" foo_entry]
      uninstall_registered_or_not [of foo_installed_state "''bar''" foo_entry]
    by simp
qed

subsection \<open>Cleaning the cache\<close>

text \<open>
  A subdirectory of the cache directory is not a file for \<open>is_file()\<close>: it stays, with
  the archive inside it, and the cache is not empty after \<open>cleanup\<close>.
\<close>

theorem cleanup_leaves_subdirectory_counterexample:
  "cache_dir (state_of (cleanup cluttered_state)) ''old'' =
     Some (Dir [(''bar_0.1.zip'', File ''zip of bar'')])"
  by (simp add: cleanup_def state_of_def cluttered_state_def)

text \<open>
  C8, amended. \<open>cleanup\<close> deletes every regular file that lies directly in the download
  cache directory and leaves every other item of it as it is, so the cache is empty
  afterwards when it held no subdirectory. The registry file, the configuration file,
  the installed package directories, the shims and the cached manifests are unchanged.
\<close>

theorem cleanup_removes_regular_files:
  "result_of (cleanup s) = Inr () \<and>
   (\<forall>item. cache_dir (state_of (cleanup s)) item =
      (case cache_dir s item of Some (File b) \<Rightarrow> None | other \<Rightarrow> other)) \<and>
   ((\<forall>item entries. cache_dir s item \<noteq> Some (Dir entries)) \<longrightarrow>
      cache_dir (state_of (cleanup s)) = Map.empty) \<and>
   packages_file (state_of (cleanup s)) = packages_file s \<and>
   config_file (state_of (cleanup s)) = config_file s \<and>
   install_dir (state_of (cleanup s)) = install_dir s \<and>
   shims (state_of (cleanup s)) = shims s \<and>
   repos_dir (state_of (cleanup s)) = repos_dir s"
proof -
  have "(\<lambda>item. case cache_dir s item of Some (File b) \<Rightarrow> None | other \<Rightarrow> other) = Map.empty"
    if "\<forall>item entries. cache_dir s item \<noteq> Some (Dir entries)"
  proof
    fix item
    show "(case cache_dir s item of Some (File b) \<Rightarrow> None | other \<Rightarrow> other) = None"
      using that by (auto split: option.splits node.splits)
  qed
  then show ?thesis
    by (simp add: cleanup_def state_of_def result_of_def)
qed

theorem cleanup_removes_regular_files_witness:
  "cache_dir foo_installed_state ''foo_1.0.zip'' =
     Some (File ''zip of https://main/foo.zip'') \<and>
   cache_dir (state_of (cleanup foo_installed_state)) = Map.empty \<and>
   packages_file (state_of (cleanup foo_installed_state)) = Some [(''foo'', foo_entry)]"
proof -
  have h: "\<forall>item entries. cache_dir foo_installed_state item \<noteq> Some (Dir entries)"
    by (simp add: foo_installed_state_def)
  have p: "packages_file foo_installed_state = Some [(''foo'', foo_entry)]"
    by (simp add: foo_installed_state_def)
  have c: "cache_dir foo_installed_state ''foo_1.0.zip'' =
      Some (File ''zip of https://main/foo.zip'')"
    by (simp add: foo_installed_state_def)
  show ?thesis
    using h p c cleanup_removes_regular_files [of foo_installed_state] by simp
qed

subsection \<open>Which repository wins\<close>









subsection \<open>Checking for updates\<close>

lemma update_loop_spec:
  assumes "\<forall>pkg \<in> set reg. find_package s (fst pkg) \<noteq> [] \<longrightarrow> best_version s (fst pkg) \<noteq> None"
  shows "update_loop s reg =
     (Inr (), map (\<lambda>(n, cur, new). Msg_update_available n cur new)
        (concat (map (\<lambda>pkg.
           case best_version s (fst pkg) of
             None \<Rightarrow> []
           | Some v \<Rightarrow>
               if v \<noteq> ip_version (snd pkg) then [(fst pkg, ip_version (snd pkg), v)] else [])
         reg)))"
  using assms
  by (induction reg) (auto simp: best_version_def split: list.splits option.splits)

text \<open>
  \<open>update\<close> changes no state. When the first descriptor found for every registered
  package has a version, the update check without a package name prints one line for
  each registered package whose first descriptor has a version string that is not equal
  to the installed one, in the order of the registry, and for no other package.
\<close>

lemma update_with_versions:
  "state_of (update s package_name) = s \<and>
   ((\<forall>pkg \<in> set (load_packages s).
       find_package s (fst pkg) \<noteq> [] \<longrightarrow> best_version s (fst pkg) \<noteq> None) \<longrightarrow>
    update s None =
      (Inr (), s,
       Msg_checking_for_updates #
         map (\<lambda>(n, cur, new). Msg_update_available n cur new) (spec_check_updates s)))"
proof -
  have "state_of (update s package_name) = s"
    by (simp add: update_def state_of_def Let_def split: option.splits prod.splits)
  moreover have "update s None =
      (Inr (), s,
       Msg_checking_for_updates #
         map (\<lambda>(n, cur, new). Msg_update_available n cur new) (spec_check_updates s))"
    if "\<forall>pkg \<in> set (load_packages s).
          find_package s (fst pkg) \<noteq> [] \<longrightarrow> best_version s (fst pkg) \<noteq> None"
    using update_loop_spec [OF that] by (simp add: update_def spec_check_updates_def)
  ultimately show ?thesis by blast
qed

lemma bare_installed_registry:
  "load_packages bare_installed_state =
     [(''bare'',
       \<lparr>ip_version = ''1.0.0'', ip_path = ''packages/bare'', ip_executable = ''bare.exe'',
        ip_repository = ''main'', ip_install_date = ''2024-01-01T00:00:00'',
        ip_hash = ''sha256 of zip of https://main/bare.zip''\<rparr>),
      (''foo'', foo_entry)]"
  by (simp add: bare_installed_state_def run_defs example_defs)

text \<open>
  C9. The update check without a package name should report exactly the registered
  packages whose best available descriptor has a version string different from the
  installed one. \<open>install_package\<close> accepts a descriptor without a version and
  registers the package as 1.0.0, but \<open>update\<close> subscripts the descriptor with
  \<open>'version'\<close>: with such a package in the registry it raises KeyError, and foo, which
  follows it in the registry and is offered in version 9.9 while 1.0 is installed, is
  never reported. The state is unchanged.
\<close>

theorem update_raises_for_versionless_descriptor:
  "result_of (install_package (Suc 0) good_world bare_fresh_state ''bare'' None None) = Inr True \<and>
   map fst (load_packages versionless_state) = [''bare'', ''foo''] \<and>
   map (ip_version \<circ> snd) (load_packages versionless_state) = [''1.0.0'', ''1.0''] \<and>
   best_version versionless_state ''bare'' = None \<and>
   best_version versionless_state ''foo'' = Some ''9.9'' \<and>
   spec_check_updates versionless_state = [(''foo'', ''1.0'', ''9.9'')] \<and>
   update versionless_state None =
     (Inl KeyError, versionless_state, [Msg_checking_for_updates])"
proof -
  have r: "result_of (install_package (Suc 0) good_world bare_fresh_state ''bare'' None None) =
      Inr True"
    by (simp add: run_defs example_defs)
  have l: "load_packages versionless_state = load_packages bare_installed_state"
    by (simp add: versionless_state_def load_packages_def)
  have c: "config_file bare_installed_state = default_config"
    by (simp add: bare_installed_state_def run_defs example_defs)
  have f1: "find_package versionless_state ''bare'' =
      [bare_descriptor\<lparr>pi_repository := Some ''main''\<rparr>]"
    by (simp add: find_package_def c load_repository_def versionless_state_def
        default_config_def)
  have f2: "find_package versionless_state ''foo'' =
      [(descriptor ''9.9'' ''https://main/foo.zip'' [])\<lparr>pi_repository := Some ''main''\<rparr>]"
    by (simp add: find_package_def c load_repository_def versionless_state_def
        default_config_def)
  have b1: "best_version versionless_state ''bare'' = None"
    by (simp add: best_version_def f1 bare_descriptor_def)
  have b2: "best_version versionless_state ''foo'' = Some ''9.9''"
    by (simp add: best_version_def f2 descriptor_def)
  have s: "spec_check_updates versionless_state = [(''foo'', ''1.0'', ''9.9'')]"
    by (simp add: spec_check_updates_def l bare_installed_registry b1 b2 foo_entry_def)
  have u: "update versionless_state None =
      (Inl KeyError, versionless_state, [Msg_checking_for_updates])"
    by (simp add: update_def l bare_installed_registry f1 bare_descriptor_def)
  from r l b1 b2 s u show ?thesis
    by (simp add: bare_installed_registry foo_entry_def)
qed

subsection \<open>Installing with a dependency\<close>

text \<open>
  C5. Installing A, which depends on B, with B available and not installed: the nested
  call installs B and writes B's entry to the registry before A is downloaded. After the
  install of A has returned True, the registry should hold both A and B. In the program
  it holds A alone: \<open>install_package\<close> loads the registry into \<open>packages\<close> before it
  installs the dependencies and writes that dictionary, with A added, back afterwards,
  which discards the entry the nested call saved. The directory and the shim of B exist.
\<close>

theorem install_dependency_entry_lost:
  "is_installed (state_of (install_package (Suc 0) good_world ab_state ''B'' None None)) ''B'' \<and>
   result_of (install_package (Suc (Suc 0)) good_world ab_state ''A'' None None) = Inr True \<and>
   output_of (install_package (Suc (Suc 0)) good_world ab_state ''A'' None None) =
     [Msg_installing_dependency ''B'', Msg_installing ''B'' ''2.0'', Msg_shim_created ''B'',
      Msg_installed ''B'' ''2.0'', Msg_installing ''A'' ''1.0'', Msg_shim_created ''A'',
      Msg_installed ''A'' ''1.0''] \<and>
   map fst (load_packages
     (state_of (install_package (Suc (Suc 0)) good_world ab_state ''A'' None None))) = [''A''] \<and>
   \<not> is_installed
     (state_of (install_package (Suc (Suc 0)) good_world ab_state ''A'' None None)) ''B'' \<and>
   install_dir (state_of (install_package (Suc (Suc 0)) good_world ab_state ''A'' None None))
     (package_dir ''B'') = Some {''tool.exe''} \<and>
   shims (state_of (install_package (Suc (Suc 0)) good_world ab_state ''A'' None None)) ''B'' =
     Some ''packages/B/B.exe''"
  by (simp add: run_defs example_defs is_installed_def)

subsection \<open>Extraction failure\<close>

lemma write_path_lookup:
  "write_path entries ps b = Some entries' \<Longrightarrow> lookup_path entries' ps = Some (File b)"
proof (induction ps arbitrary: entries entries')
  case Nil
  then show ?case by simp
next
  case (Cons p ps)
  show ?case
  proof (cases "map_of entries p")
    case None
    with Cons.prems show ?thesis
      by (auto simp: AList.update_conv' split: if_splits)
  next
    case (Some n)
    show ?thesis
    proof (cases n)
      case (File c)
      with Some Cons.prems show ?thesis
        by (auto simp: AList.update_conv' split: if_splits)
    next
      case (Dir sub)
      with Some Cons.prems obtain sub' where
        w: "write_path sub ps b = Some sub'" and e: "entries' = AList.update p (Dir sub') entries"
        by (auto split: option.splits)
      from Cons.IH [OF w] e show ?thesis
        by (simp add: AList.update_conv')
    qed
  qed
qed

lemma cache_write_lookup:
  assumes "cache_write cache path b = Some cache'"
  shows "cache_lookup cache' path = Some (File b)"
proof (cases "split_path path")
  case Nil
  with assms show ?thesis by (simp add: cache_write_def)
next
  case (Cons p ps)
  show ?thesis
  proof (cases "cache p")
    case None
    with Cons assms show ?thesis
      by (auto simp: cache_write_def cache_lookup_def split: if_splits)
  next
    case (Some n)
    show ?thesis
    proof (cases n)
      case (File c)
      with Some Cons assms show ?thesis
        by (auto simp: cache_write_def cache_lookup_def split: if_splits)
    next
      case (Dir sub)
      with Some Cons assms obtain sub' where
        w: "write_path sub ps b = Some sub'" and e: "cache' = cache(p \<mapsto> Dir sub')"
        by (auto simp: cache_write_def split: option.splits)
      from write_path_lookup [OF w] e Cons show ?thesis
        by (simp add: cache_lookup_def)
    qed
  qed
qed

lemma open_wb_lookup:
  assumes "open_wb w s path b = Some cache'"
  shows "cache_lookup cache' path = Some (File b)"
  using assms by (auto simp: open_wb_def split: if_splits intro: cache_write_lookup)

lemma download_file_Downloaded:
  assumes "http_get w url = Downloaded b"
      and "open_wb w s dest b = Some cache'"
  shows "download_file w s url dest = (Inr True, s\<lparr>cache_dir := cache'\<rparr>, [])"
  using assms by (simp add: download_file_def)

lemma mkdir_Some:
  assumes "mkdir w s path = Some s'"
  shows "install_dir s' path =
           Some (case install_dir s path of None \<Rightarrow> {} | Some old \<Rightarrow> old)"
    and "packages_file s' = packages_file s"
    and "cache_dir s' = cache_dir s"
  using assms by (auto simp: mkdir_def Let_def split: option.splits if_splits)

lemma download_and_install_extract_failed:
  assumes "pi_url info = Some url"
      and "http_get w url = Downloaded b"
      and "open_wb w s (download_path_of name (version_of version info)) b = Some cache'"
      and "mkdir w (s\<lparr>cache_dir := cache'\<rparr>) (package_dir name) = Some s2"
      and "zip_extractall w b = Extract_failed files"
  shows "download_and_install w s name version info packages =
           (Inr False,
            s2\<lparr>install_dir := (install_dir s2)(package_dir name \<mapsto>
                (case install_dir s (package_dir name) of None \<Rightarrow> {} | Some old \<Rightarrow> old) \<union>
                files)\<rparr>,
            [Msg_installing name (version_of version info), Msg_failed_to_extract])"
proof -
  have l: "cache_lookup (cache_dir s2) (download_path_of name (version_of version info)) =
      Some (File b)"
    using open_wb_lookup [OF assms(3)] mkdir_Some(3) [OF assms(4)] by simp
  have i: "install_dir s2 (package_dir name) =
      Some (case install_dir s (package_dir name) of None \<Rightarrow> {} | Some old \<Rightarrow> old)"
    using mkdir_Some(1) [OF assms(4)] by simp
  have e: "extract_package w s2 (download_path_of name (version_of version info))
      (package_dir name) =
      (False, s2\<lparr>install_dir := (install_dir s2)(package_dir name \<mapsto>
                (case install_dir s (package_dir name) of None \<Rightarrow> {} | Some old \<Rightarrow> old) \<union>
                files)\<rparr>)"
    by (simp add: extract_package_def Let_def l i assms(5))
  show ?thesis
    by (simp add: download_and_install_def Let_def assms(1)
        download_file_Downloaded [OF assms(2,3)] assms(4) e)
qed

lemma install_package_found:
  assumes "\<not> is_installed s name"
      and "select_package s name repo = (Inr (Some info), sel_out)"
  shows "install_package (Suc depth) w s name version repo =
           install_found (\<lambda>s' dep. install_package depth w s' dep None None)
             w s name version info (load_packages s)"
  using assms by (simp add: is_installed_def)

lemma install_found_after_dependencies:
  assumes "install_dependencies inst s (fst (resolve_dependencies s info)) = (Inr u, s1, out1)"
  shows "install_found inst w s name version info packages =
           (result_of (download_and_install w s1 name version info packages),
            state_of (download_and_install w s1 name version info packages),
            snd (resolve_dependencies s info) @ out1 @
              output_of (download_and_install w s1 name version info packages))"
proof -
  obtain deps out0 where r: "resolve_dependencies s info = (deps, out0)"
    by (cases "resolve_dependencies s info")
  obtain r2 s2 out2 where d: "download_and_install w s1 name version info packages = (r2, s2, out2)"
    by (cases "download_and_install w s1 name version info packages")
  from assms r d show ?thesis
    by (simp add: install_found_def result_of_def state_of_def output_of_def)
qed

text \<open>
  With an archive whose extraction fails after one file was written, the install returns
  False and the package directory is still there, with that file in it. And when the
  pinned descriptor of A names A as a dependency, the nested install of A from main
  registers A before the extraction of the pinned archive fails: the install returns
  False and A is in the registry.
\<close>

theorem extraction_failure_counterexample:
  "result_of (install_package (Suc 0) corrupt_zip_world ab_state ''B'' None None) = Inr False \<and>
   output_of (install_package (Suc 0) corrupt_zip_world ab_state ''B'' None None) =
     [Msg_installing ''B'' ''2.0'', Msg_failed_to_extract] \<and>
   install_dir (state_of (install_package (Suc 0) corrupt_zip_world ab_state ''B'' None None))
     (package_dir ''B'') = Some {''partial.tmp''} \<and>
   \<not> is_installed self_pinned_state ''A'' \<and>
   result_of (install_package (Suc (Suc 0)) extras_corrupt_world self_pinned_state ''A'' None
     (Some ''extras'')) = Inr False \<and>
   output_of (install_package (Suc (Suc 0)) extras_corrupt_world self_pinned_state ''A'' None
     (Some ''extras'')) =
     [Msg_installing_dependency ''A'', Msg_installing ''A'' ''1.0'', Msg_shim_created ''A'',
      Msg_installed ''A'' ''1.0'', Msg_installing ''A'' ''2.0'', Msg_failed_to_extract] \<and>
   is_installed (state_of (install_package (Suc (Suc 0)) extras_corrupt_world self_pinned_state
     ''A'' None (Some ''extras''))) ''A''"
  by (simp add: run_defs example_defs is_installed_def)

text \<open>
  C1, amended. When the package is found, its dependencies were processed without an
  exception, its archive is downloaded and written to the cache, its install directory
  exists or is made and the extraction of the archive fails, the install returns False, its last
  message being that the extraction failed, and it writes nothing to the registry after
  the installs of the dependencies: the registry file is the one they left, so the
  package is registered afterwards only if one of them registered it. The install
  directory is not removed: it exists afterwards and holds what it held before together
  with the files that were extracted before the failure.
\<close>

theorem extraction_failure_registers_nothing:
  assumes "\<not> is_installed s name"
      and "select_package s name repo = (Inr (Some info), sel_out)"
      and "install_dependencies (\<lambda>s' dep. install_package depth w s' dep None None) s
             (fst (resolve_dependencies s info)) = (Inr u, s1, out1)"
      and "pi_url info = Some url"
      and "http_get w url = Downloaded b"
      and "open_wb w s1 (download_path_of name (version_of version info)) b = Some cache'"
      and "mkdir w (s1\<lparr>cache_dir := cache'\<rparr>) (package_dir name) = Some s2"
      and "zip_extractall w b = Extract_failed files"
  shows "result_of (install_package (Suc depth) w s name version repo) = Inr False \<and>
         last (output_of (install_package (Suc depth) w s name version repo)) =
           Msg_failed_to_extract \<and>
         packages_file (state_of (install_package (Suc depth) w s name version repo)) =
           packages_file s1 \<and>
         is_installed (state_of (install_package (Suc depth) w s name version repo)) name =
           is_installed s1 name \<and>
         install_dir (state_of (install_package (Suc depth) w s name version repo))
           (package_dir name) =
           Some ((case install_dir s1 (package_dir name) of None \<Rightarrow> {} | Some old \<Rightarrow> old) \<union>
                 files)"
  unfolding install_package_found [OF assms(1,2)]
    install_found_after_dependencies [OF assms(3)]
    download_and_install_extract_failed [OF assms(4,5,6,7,8)]
  using mkdir_Some(2) [OF assms(7)]
  by (simp add: result_of_def state_of_def output_of_def is_installed_def load_packages_def)

theorem extraction_failure_registers_nothing_witness:
  "\<not> is_installed ab_state ''B'' \<and>
   zip_extractall corrupt_zip_world ''zip of https://main/B.zip'' =
     Extract_failed {''partial.tmp''} \<and>
   result_of (install_package (Suc 0) corrupt_zip_world ab_state ''B'' None None) = Inr False \<and>
   last (output_of (install_package (Suc 0) corrupt_zip_world ab_state ''B'' None None)) =
     Msg_failed_to_extract \<and>
   packages_file (state_of (install_package (Suc 0) corrupt_zip_world ab_state ''B'' None None)) =
     None \<and>
   \<not> is_installed
     (state_of (install_package (Suc 0) corrupt_zip_world ab_state ''B'' None None)) ''B'' \<and>
   install_dir (state_of (install_package (Suc 0) corrupt_zip_world ab_state ''B'' None None))
     (package_dir ''B'') = Some {''partial.tmp''}"
proof -
  let ?info = "(descriptor ''2.0'' ''https://main/B.zip'' [])\<lparr>pi_repository := Some ''main''\<rparr>"
  let ?cache = "[''B_2.0.zip'' \<mapsto> File ''zip of https://main/B.zip'']"
  let ?s2 = "ab_state\<lparr>cache_dir := ?cache, install_dir := [''packages/B'' \<mapsto> {}]\<rparr>"
  have h1: "\<not> is_installed ab_state ''B''"
    by (simp add: is_installed_def run_defs example_defs)
  have h2: "select_package ab_state ''B'' None = (Inr (Some ?info), [])"
    by (simp add: run_defs example_defs)
  have h3: "install_dependencies (\<lambda>s' dep. install_package 0 corrupt_zip_world s' dep None None)
      ab_state (fst (resolve_dependencies ab_state ?info)) = (Inr (), ab_state, [])"
    by (simp add: run_defs example_defs)
  have h4: "pi_url ?info = Some ''https://main/B.zip''"
    by (simp add: descriptor_def)
  have h5: "http_get corrupt_zip_world ''https://main/B.zip'' =
      Downloaded ''zip of https://main/B.zip''"
    by (simp add: example_defs)
  have h6: "open_wb corrupt_zip_world ab_state (download_path_of ''B'' (version_of None ?info))
      ''zip of https://main/B.zip'' = Some ?cache"
    by (simp add: run_defs example_defs)
  have h7: "mkdir corrupt_zip_world (ab_state\<lparr>cache_dir := ?cache\<rparr>) (package_dir ''B'') =
      Some ?s2"
    by (simp add: run_defs example_defs)
  have h8: "zip_extractall corrupt_zip_world ''zip of https://main/B.zip'' =
      Extract_failed {''partial.tmp''}"
    by (simp add: example_defs)
  have e: "packages_file ab_state = None" "install_dir ab_state (package_dir ''B'') = None"
    by (simp_all add: example_defs)
  show ?thesis
    using h1 h8 e extraction_failure_registers_nothing [OF h1 h2 h3 h4 h5 h6 h7 h8]
    by simp
qed

subsection \<open>A dependency that no repository provides\<close>

lemma resolve_loop_names:
  "map fst (fst (resolve_loop s deps)) = filter (resolvable s) deps"
  by (induction deps) (auto simp: resolvable_def split: prod.splits list.splits)

lemma resolve_loop_warnings:
  "snd (resolve_loop s deps) =
     map Msg_dependency_not_found (filter (\<lambda>d. \<not> resolvable s d) deps)"
  by (induction deps) (auto simp: resolvable_def split: prod.splits list.splits)

lemma resolve_loop_resolvable:
  "resolve_loop s (filter (resolvable s) deps) = (fst (resolve_loop s deps), [])"
  by (induction deps) (auto simp: resolvable_def split: prod.splits list.splits)

lemma download_and_install_ignores_dependencies:
  "download_and_install w s name version (info\<lparr>pi_dependencies := ds\<rparr>) packages =
   download_and_install w s name version info packages"
proof -
  have v: "version_of version (info\<lparr>pi_dependencies := ds\<rparr>) = version_of version info"
    by (simp add: version_of_def)
  have u: "pi_url (info\<lparr>pi_dependencies := ds\<rparr>) = pi_url info"
    by simp
  have e: "registry_entry w name ver (info\<lparr>pi_dependencies := ds\<rparr>) h =
           registry_entry w name ver info h" for ver h
    by (simp add: registry_entry_def executable_of_def)
  have c: "create_shim w s' name (info\<lparr>pi_dependencies := ds\<rparr>) = create_shim w s' name info"
    for s'
    by (simp add: create_shim_def executable_of_def)
  show ?thesis
    unfolding download_and_install_def v u e c by (rule refl)
qed

lemma install_found_without_missing:
  "install_found inst w s name version info packages =
     (result_of (install_found inst w s name version
        (info\<lparr>pi_dependencies := Some (filter (resolvable s) (dependencies_of info))\<rparr>) packages),
      state_of (install_found inst w s name version
        (info\<lparr>pi_dependencies := Some (filter (resolvable s) (dependencies_of info))\<rparr>) packages),
      map Msg_dependency_not_found (filter (\<lambda>d. \<not> resolvable s d) (dependencies_of info)) @
      output_of (install_found inst w s name version
        (info\<lparr>pi_dependencies := Some (filter (resolvable s) (dependencies_of info))\<rparr>) packages))"
proof -
  let ?deps = "dependencies_of info"
  obtain resolved out0 where r: "resolve_loop s ?deps = (resolved, out0)"
    by (cases "resolve_loop s ?deps")
  have w: "out0 = map Msg_dependency_not_found (filter (\<lambda>d. \<not> resolvable s d) ?deps)"
    using resolve_loop_warnings [of s ?deps] r by simp
  have r': "resolve_loop s (filter (resolvable s) ?deps) = (resolved, [])"
    using resolve_loop_resolvable [of s ?deps] r by simp
  obtain r1 s1 out1 where d: "install_dependencies inst s resolved = (r1, s1, out1)"
    by (cases "install_dependencies inst s resolved")
  show ?thesis
  proof (cases r1)
    case (Inl e)
    with r r' d w show ?thesis
      by (simp add: install_found_def resolve_dependencies_def dependencies_of_def
          result_of_def state_of_def output_of_def)
  next
    case (Inr u)
    obtain r2 s2 out2 where
      "download_and_install w s1 name version info packages = (r2, s2, out2)"
      by (cases "download_and_install w s1 name version info packages")
    with Inr r r' d w show ?thesis
      by (simp add: install_found_def resolve_dependencies_def dependencies_of_def
          result_of_def state_of_def output_of_def download_and_install_ignores_dependencies)
  qed
qed

text \<open>
  C6. For every declared dependency that resolves to no descriptor,
  \<open>resolve_dependencies\<close> prints a warning and leaves the dependency out of its
  result, which holds the resolvable dependencies in the declared order. The install of
  the requesting package goes on: it returns the same value and leaves the same state as
  it would if the descriptor declared only the resolvable dependencies, and prints the
  same messages after the warnings.
\<close>

theorem missing_dependency_dropped:
  "snd (resolve_dependencies s info) =
     map Msg_dependency_not_found (filter (\<lambda>d. \<not> resolvable s d) (dependencies_of info)) \<and>
   map fst (fst (resolve_dependencies s info)) = filter (resolvable s) (dependencies_of info) \<and>
   (\<not> is_installed s name \<longrightarrow> select_package s name repo = (Inr (Some info), sel_out) \<longrightarrow>
    install_package (Suc depth) w s name version repo =
      (result_of (install_found (\<lambda>s' dep. install_package depth w s' dep None None) w s name version
         (info\<lparr>pi_dependencies := Some (filter (resolvable s) (dependencies_of info))\<rparr>)
         (load_packages s)),
       state_of (install_found (\<lambda>s' dep. install_package depth w s' dep None None) w s name version
         (info\<lparr>pi_dependencies := Some (filter (resolvable s) (dependencies_of info))\<rparr>)
         (load_packages s)),
       map Msg_dependency_not_found (filter (\<lambda>d. \<not> resolvable s d) (dependencies_of info)) @
       output_of (install_found (\<lambda>s' dep. install_package depth w s' dep None None) w s name version
         (info\<lparr>pi_dependencies := Some (filter (resolvable s) (dependencies_of info))\<rparr>)
         (load_packages s))))"
proof -
  have a: "snd (resolve_dependencies s info) =
     map Msg_dependency_not_found (filter (\<lambda>d. \<not> resolvable s d) (dependencies_of info))"
    by (simp add: resolve_dependencies_def dependencies_of_def resolve_loop_warnings)
  have b: "map fst (fst (resolve_dependencies s info)) = filter (resolvable s) (dependencies_of info)"
    by (simp add: resolve_dependencies_def dependencies_of_def resolve_loop_names)
  have c: "install_package (Suc depth) w s name version repo =
      (result_of (install_found (\<lambda>s' dep. install_package depth w s' dep None None) w s name version
         (info\<lparr>pi_dependencies := Some (filter (resolvable s) (dependencies_of info))\<rparr>)
         (load_packages s)),
       state_of (install_found (\<lambda>s' dep. install_package depth w s' dep None None) w s name version
         (info\<lparr>pi_dependencies := Some (filter (resolvable s) (dependencies_of info))\<rparr>)
         (load_packages s)),
       map Msg_dependency_not_found (filter (\<lambda>d. \<not> resolvable s d) (dependencies_of info)) @
       output_of (install_found (\<lambda>s' dep. install_package depth w s' dep None None) w s name version
         (info\<lparr>pi_dependencies := Some (filter (resolvable s) (dependencies_of info))\<rparr>)
         (load_packages s)))"
    if "\<not> is_installed s name" "select_package s name repo = (Inr (Some info), sel_out)"
    unfolding install_package_found [OF that]
    by (rule install_found_without_missing)
  from a b c show ?thesis by blast
qed

theorem missing_dependency_dropped_witness:
  "\<not> is_installed app_state ''app'' \<and>
   \<not> resolvable app_state ''missinglib'' \<and>
   result_of (install_package (Suc 0) good_world app_state ''app'' None None) = Inr True \<and>
   output_of (install_package (Suc 0) good_world app_state ''app'' None None) =
     [Msg_dependency_not_found ''missinglib'', Msg_installing ''app'' ''1.0'',
      Msg_shim_created ''app'', Msg_installed ''app'' ''1.0''] \<and>
   is_installed (state_of (install_package (Suc 0) good_world app_state ''app'' None None)) ''app''"
proof -
  let ?info = "(descriptor ''1.0'' ''https://main/app.zip'' [''missinglib''])
                 \<lparr>pi_repository := Some ''main''\<rparr>"
  let ?run = "install_found (\<lambda>s' dep. install_package 0 good_world s' dep None None)
      good_world app_state ''app'' None
      (?info\<lparr>pi_dependencies := Some (filter (resolvable app_state) (dependencies_of ?info))\<rparr>)
      (load_packages app_state)"
  have h1: "\<not> is_installed app_state ''app''"
    by (simp add: is_installed_def run_defs example_defs)
  have h2: "select_package app_state ''app'' None = (Inr (Some ?info), [])"
    by (simp add: run_defs example_defs)
  have h3: "\<not> resolvable app_state ''missinglib''"
    by (simp add: resolvable_def run_defs example_defs)
  have d: "dependencies_of ?info = [''missinglib'']"
    by (simp add: dependencies_of_def descriptor_def)
  have f: "filter (resolvable app_state) (dependencies_of ?info) = []"
    using h3 by (simp add: d)
  have run: "result_of ?run = Inr True \<and>
      output_of ?run =
        [Msg_installing ''app'' ''1.0'', Msg_shim_created ''app'', Msg_installed ''app'' ''1.0''] \<and>
      is_installed (state_of ?run) ''app''"
    unfolding f by (simp add: is_installed_def run_defs example_defs)
  from missing_dependency_dropped
         [of app_state ?info "''app''" None "[]" 0 good_world None] h1 h2
  have eq: "install_package (Suc 0) good_world app_state ''app'' None None =
      (result_of ?run, state_of ?run,
       map Msg_dependency_not_found
         (filter (\<lambda>d. \<not> resolvable app_state d) (dependencies_of ?info)) @ output_of ?run)"
    by blast
  show ?thesis
    unfolding eq using h1 h3 run by (simp add: d result_of_def state_of_def output_of_def)
qed

subsection \<open>Termination of the recursion\<close>
























end
